theory Spec2Isabelle
  imports Main "HOL-Library.Sublist" "HOL-Library.Word"
begin

section \<open>JavaScript values and the coercions used by the server\<close>

text \<open>
  The values a sandboxed script can hand to the server: what it returns, what it throws and
  what it passes to \<^verbatim>\<open>console.log\<close>.
  \<^item> \<open>JNum n\<close> is a number that is an integer from \<open>-2^53\<close> to \<open>2^53 - 1\<close> (the signed
    value of the 54-bit word); the text of such a number is its decimal numeral.
    \<open>JFloat t\<close> is any other number, given by the text \<^verbatim>\<open>Number.prototype.toString\<close>
    produces for it (\<^verbatim>\<open>0.5\<close>, \<^verbatim>\<open>1e+21\<close>, \<^verbatim>\<open>NaN\<close>, \<^verbatim>\<open>Infinity\<close>); how a floating-point
    number is printed is not modelled.
  \<^item> \<open>JBigInt n\<close> is a BigInt.
  \<^item> \<open>JError m\<close> is an \<^verbatim>\<open>Error\<close> instance with message \<open>m\<close>.
  \<^item> \<open>JObj kvs\<close> is an object, the list of its enumerable own properties in enumeration
    order.
  \<^item> \<open>JThrowing e\<close> is an object that \<^verbatim>\<open>JSON.stringify\<close> cannot convert: converting it
    throws \<open>e\<close> every time (a \<^verbatim>\<open>TypeError\<close> for a cyclic structure, or what a
    \<^verbatim>\<open>toJSON\<close> method or a getter throws). It has no \<^verbatim>\<open>message\<close> property.
  Functions, symbols, objects with a \<^verbatim>\<open>toJSON\<close> method that returns, and objects whose
  conversion throws once and then succeeds are not among these values.
\<close>

datatype jsval =
    JUndefined
  | JNull
  | JBool bool
  | JNum "54 word"
  | JFloat string
  | JBigInt int
  | JStr string
  | JArr "jsval list"
  | JObj "(string \<times> jsval) list"
  | JError string
  | JThrowing jsval

text \<open>\<^verbatim>\<open>typeof v\<close>. Note that \<^verbatim>\<open>typeof null === 'object'\<close>.\<close>

fun js_typeof :: "jsval \<Rightarrow> string" where
  "js_typeof JUndefined = ''undefined''"
| "js_typeof JNull = ''object''"
| "js_typeof (JBool b) = ''boolean''"
| "js_typeof (JNum n) = ''number''"
| "js_typeof (JFloat t) = ''number''"
| "js_typeof (JBigInt n) = ''bigint''"
| "js_typeof (JStr s) = ''string''"
| "js_typeof (JArr xs) = ''object''"
| "js_typeof (JObj kvs) = ''object''"
| "js_typeof (JError m) = ''object''"
| "js_typeof (JThrowing e) = ''object''"

text \<open>\<^verbatim>\<open>Array.prototype.join\<close> on a list of strings.\<close>

fun join_with :: "string \<Rightarrow> string list \<Rightarrow> string" where
  "join_with sep [] = []"
| "join_with sep [x] = x"
| "join_with sep (x # y # ys) = x @ sep @ join_with sep (y # ys)"

definition digit_char :: "nat \<Rightarrow> char" where
  "digit_char d = ''0123456789abcdef'' ! d"

fun string_of_nat :: "nat \<Rightarrow> string" where
  "string_of_nat n =
     (if n < 10 then [digit_char n] else string_of_nat (n div 10) @ [digit_char (n mod 10)])"

definition string_of_int :: "int \<Rightarrow> string" where
  "string_of_int i = (if i < 0 then CHR ''-'' # string_of_nat (nat (- i)) else string_of_nat (nat i))"

text \<open>
  \<^verbatim>\<open>String(v)\<close>. The server only applies it to values whose \<^verbatim>\<open>typeof\<close> is not
  \<^verbatim>\<open>'object'\<close>; the object cases are what \<^verbatim>\<open>toString\<close> gives.
\<close>

fun js_String :: "jsval \<Rightarrow> string" where
  "js_String JUndefined = ''undefined''"
| "js_String JNull = ''null''"
| "js_String (JBool b) = (if b then ''true'' else ''false'')"
| "js_String (JNum n) = string_of_int (sint n)"
| "js_String (JFloat t) = t"
| "js_String (JBigInt n) = string_of_int n"
| "js_String (JStr s) = s"
| "js_String (JArr xs) =
     join_with '','' (map (\<lambda>x. if x = JUndefined \<or> x = JNull then [] else js_String x) xs)"
| "js_String (JObj kvs) = ''[object Object]''"
| "js_String (JError m) = (if m = [] then ''Error'' else ''Error: '' @ m)"
| "js_String (JThrowing e) = ''[object Object]''"

text \<open>\<^verbatim>\<open>JSON.stringify\<close>'s quoting of a string.\<close>

definition json_escape :: "char \<Rightarrow> string" where
  "json_escape c =
     (if c = CHR 0x22 then [CHR 0x5C, CHR 0x22]
      else if c = CHR 0x5C then [CHR 0x5C, CHR 0x5C]
      else if c = CHR 0x08 then [CHR 0x5C, CHR ''b'']
      else if c = CHR 0x0C then [CHR 0x5C, CHR ''f'']
      else if c = CHR 0x0A then [CHR 0x5C, CHR ''n'']
      else if c = CHR 0x0D then [CHR 0x5C, CHR ''r'']
      else if c = CHR 0x09 then [CHR 0x5C, CHR ''t'']
      else if (of_char c :: nat) < 32
        then [CHR 0x5C, CHR ''u'', CHR ''0'', CHR ''0'',
              digit_char ((of_char c :: nat) div 16), digit_char ((of_char c :: nat) mod 16)]
      else [c])"

definition json_quote :: "string \<Rightarrow> string" where
  "json_quote s = [CHR 0x22] @ concat (map json_escape s) @ [CHR 0x22]"

text \<open>The first exception among the results of converting the parts of a value.\<close>

fun first_thrown :: "(jsval + 'a) list \<Rightarrow> jsval option" where
  "first_thrown [] = None"
| "first_thrown (Inl e # rs) = Some e"
| "first_thrown (Inr x # rs) = first_thrown rs"

text \<open>
  \<^verbatim>\<open>JSON.stringify(v, null, 2)\<close>, with the current indentation as first argument.
  \<open>Inl e\<close>: the conversion throws \<open>e\<close>. \<open>Inr None\<close> is the result \<^verbatim>\<open>undefined\<close>. An
  array prints \<^verbatim>\<open>null\<close> for an element that has no JSON form; an object skips such a
  property; an \<^verbatim>\<open>Error\<close> has no enumerable property; a number that is not finite prints
  as \<^verbatim>\<open>null\<close>; a BigInt cannot be converted.
\<close>

fun json_ser :: "string \<Rightarrow> jsval \<Rightarrow> jsval + string option" where
  "json_ser ind JUndefined = Inr None"
| "json_ser ind JNull = Inr (Some ''null'')"
| "json_ser ind (JBool b) = Inr (Some (if b then ''true'' else ''false''))"
| "json_ser ind (JNum n) = Inr (Some (string_of_int (sint n)))"
| "json_ser ind (JFloat t) =
     Inr (Some (if t = ''NaN'' \<or> t = ''Infinity'' \<or> t = ''-Infinity'' then ''null'' else t))"
| "json_ser ind (JBigInt n) = Inl (JError ''Do not know how to serialize a BigInt'')"
| "json_ser ind (JStr s) = Inr (Some (json_quote s))"
| "json_ser ind (JArr xs) =
     (if xs = [] then Inr (Some ''[]'')
      else
        (let rs = map (json_ser (ind @ ''  '')) xs in
         case first_thrown rs of
           Some e \<Rightarrow> Inl e
         | None \<Rightarrow>
             Inr (Some (''['' @ [CHR 0x0A] @ (ind @ ''  '') @
               join_with ('','' @ [CHR 0x0A] @ (ind @ ''  ''))
                 (map (\<lambda>r. case r of Inr (Some s) \<Rightarrow> s | _ \<Rightarrow> ''null'') rs) @
               [CHR 0x0A] @ ind @ '']''))))"
| "json_ser ind (JObj kvs) =
     (let rs = map (\<lambda>kv. json_ser (ind @ ''  '') (snd kv)) kvs in
      case first_thrown rs of
        Some e \<Rightarrow> Inl e
      | None \<Rightarrow>
          (let partial = concat (map (\<lambda>(k, r). case r of
                                        Inr (Some s) \<Rightarrow> [json_quote k @ '': '' @ s]
                                      | _ \<Rightarrow> [])
                                  (zip (map fst kvs) rs))
           in if partial = [] then Inr (Some ''{}'')
              else Inr (Some (''{'' @ [CHR 0x0A] @ (ind @ ''  '') @
                     join_with ('','' @ [CHR 0x0A] @ (ind @ ''  '')) partial @
                     [CHR 0x0A] @ ind @ ''}''))))"
| "json_ser ind (JError m) = Inr (Some ''{}'')"
| "json_ser ind (JThrowing e) = Inl e"

definition JSON_stringify :: "jsval \<Rightarrow> jsval + string option" where
  "JSON_stringify v = json_ser [] v"


section \<open>The execution sandbox\<close>

text \<open>
  The events the server sends. \<open>Execution_result result error language\<close> is the object
  \<^verbatim>\<open>{type: 'execution_result', result, error, language}\<close> handed to
  \<^verbatim>\<open>JSON.stringify\<close>: \<open>result = None\<close> is the value \<^verbatim>\<open>undefined\<close> (the
  variable was never assigned a text), and \<open>error = JNull\<close> is \<^verbatim>\<open>null\<close>.
\<close>

datatype message =
    Console_output string
  | Execution_result "string option" jsval string
  | Execution_error jsval
  | File_content string string
  | File_written string
  | File_created string
  | File_deleted string
  | File_changed string string
  | Error_message string

text \<open>
  What the interpreter does with a source text is not part of the server. A script is
  given by what it has done after running synchronously for \<open>t\<close> milliseconds: the
  argument lists of its \<^verbatim>\<open>console.log\<close> calls so far, and how it ended if it has
  ended (\<open>None\<close>: it is still running). This is what \<^verbatim>\<open>vm.run\<close> sees of the script.
  The sandbox also holds the host's \<^verbatim>\<open>setTimeout\<close>, \<^verbatim>\<open>setInterval\<close>,
  \<^verbatim>\<open>clearTimeout\<close> and \<^verbatim>\<open>clearInterval\<close>: a callback the script registers there runs
  on the host after \<^verbatim>\<open>vm.run\<close> has returned, under no time limit, and what it does is
  no part of a script as given here.
\<close>

datatype vm_outcome = Returns jsval | Throws jsval

type_synonym script = "nat \<Rightarrow> jsval list list \<times> vm_outcome option"

text \<open>
  \<^verbatim>\<open>new VM({timeout, sandbox}).run(code)\<close>: the script runs for at most \<open>timeout\<close>
  milliseconds; one that has not ended by then is aborted, and \<^verbatim>\<open>run\<close> throws the
  interpreter's timeout error.
\<close>

definition timeout_error :: "nat \<Rightarrow> jsval" where
  "timeout_error timeout =
     JError (''Script execution timed out after '' @ string_of_nat timeout @ ''ms'')"

definition vm_run :: "nat \<Rightarrow> script \<Rightarrow> jsval list list \<times> vm_outcome" where
  "vm_run timeout s =
     (case s timeout of
        (logs, Some out) \<Rightarrow> (logs, out)
      | (logs, None) \<Rightarrow> (logs, Throws (timeout_error timeout)))"

text \<open>
  The sandbox's \<^verbatim>\<open>console.log\<close>: one \<^verbatim>\<open>console_output\<close> event per call. A call with
  an argument whose conversion throws sends nothing and throws inside the script; the
  calls listed in a script are those that send their event.
\<close>

definition format_arg :: "jsval \<Rightarrow> string" where
  "format_arg arg =
     (if js_typeof arg = ''object''
      then (case JSON_stringify arg of Inr (Some s) \<Rightarrow> s | _ \<Rightarrow> [])
      else js_String arg)"

definition console_log :: "jsval list \<Rightarrow> message" where
  "console_log args = Console_output (join_with '' '' (map format_arg args))"

text \<open>
  \<^verbatim>\<open>vmError.message\<close>: reading the property of \<^verbatim>\<open>null\<close> or \<^verbatim>\<open>undefined\<close> throws a
  \<^verbatim>\<open>TypeError\<close> (\<open>Inl\<close>, with its message); a primitive or an array has no such property.
\<close>

fun get_message :: "jsval \<Rightarrow> string + jsval" where
  "get_message JUndefined = Inl ''Cannot read properties of undefined (reading 'message')''"
| "get_message JNull = Inl ''Cannot read properties of null (reading 'message')''"
| "get_message (JError m) = Inr (JStr m)"
| "get_message (JObj kvs) =
     Inr (case map_of kvs ''message'' of Some v \<Rightarrow> v | None \<Rightarrow> JUndefined)"
| "get_message v = Inr JUndefined"

text \<open>
  The conversion of a returned value to text:
  \<^verbatim>\<open>typeof result === 'object' ? JSON.stringify(result, null, 2) : String(result)\<close>.
\<close>

definition convert_result :: "jsval \<Rightarrow> jsval + string option" where
  "convert_result v =
     (if js_typeof v = ''object'' then JSON_stringify v else Inr (Some (js_String v)))"

text \<open>
  The outer handler of \<^verbatim>\<open>executeCode\<close>: it sends \<^verbatim>\<open>execution_error\<close> with the
  exception's \<^verbatim>\<open>message\<close>. When reading or converting that message throws, the
  exception leaves \<^verbatim>\<open>executeCode\<close> and the connection's message handler answers
  \<^verbatim>\<open>Invalid message format\<close>.
\<close>

definition execution_error :: "jsval \<Rightarrow> message" where
  "execution_error e =
     (case get_message e of
        Inl type_error \<Rightarrow> Error_message ''Invalid message format''
      | Inr m \<Rightarrow>
          (case json_ser [] m of
             Inl e' \<Rightarrow> Error_message ''Invalid message format''
           | Inr t \<Rightarrow> Execution_error m))"

text \<open>
  What follows \<^verbatim>\<open>vm.run(code)\<close>. A returned value other than \<^verbatim>\<open>undefined\<close> is
  converted to text. When the conversion throws, \<^verbatim>\<open>result\<close> still holds the returned
  value and the exception's message becomes the error; converting the event then throws
  on that value again, and the outer handler takes over. A thrown value leaves
  \<^verbatim>\<open>result\<close> unassigned and its \<^verbatim>\<open>message\<close> becomes the error. Then the event is
  converted and sent; an exception on the way goes to the outer handler.
\<close>

definition result_event :: "vm_outcome \<Rightarrow> string \<Rightarrow> message" where
  "result_event out language =
     (case out of
        Returns v \<Rightarrow>
          (if v \<noteq> JUndefined
           then (case convert_result v of
                   Inr text \<Rightarrow> Execution_result text JNull language
                 | Inl vmError \<Rightarrow>
                     (case get_message vmError of
                        Inl type_error \<Rightarrow> execution_error (JError type_error)
                      | Inr m \<Rightarrow> execution_error vmError))
           else Execution_result None JNull language)
      | Throws vmError \<Rightarrow>
          (case get_message vmError of
             Inl type_error \<Rightarrow> execution_error (JError type_error)
           | Inr m \<Rightarrow>
               (case json_ser [] m of
                  Inl e \<Rightarrow> execution_error e
                | Inr t \<Rightarrow> Execution_result None m language)))"

text \<open>
  \<^verbatim>\<open>executeCode(ws, {code, language = 'javascript'})\<close>. The result is the list of events
  sent to the requesting connection, in order. \<open>interp\<close> gives the script of a source text.
\<close>

record exec_payload =
  code :: string
  language :: "string option"

definition executeCode :: "(string \<Rightarrow> script) \<Rightarrow> exec_payload \<Rightarrow> message list" where
  "executeCode interp pl =
     (let language = (case language pl of None \<Rightarrow> ''javascript'' | Some l \<Rightarrow> l) in
      if language = ''javascript'' \<or> language = ''js'' then
        (case vm_run 5000 (interp (code pl)) of
           (logs, out) \<Rightarrow> map console_log logs @ [result_event out language])
      else [Execution_result None (JStr (''Unsupported language: '' @ language)) language])"

section \<open>Paths\<close>

text \<open>\<^verbatim>\<open>s.split(c)\<close>.\<close>

fun split_on :: "char \<Rightarrow> string \<Rightarrow> string list" where
  "split_on c [] = [[]]"
| "split_on c (x # xs) =
     (if x = c then [] # split_on c xs
      else (case split_on c xs of [] \<Rightarrow> [[x]] | s # ss \<Rightarrow> (x # s) # ss))"

text \<open>
  The segment walk of \<^verbatim>\<open>path.normalize\<close>: empty segments and \<^verbatim>\<open>.\<close> are dropped, \<^verbatim>\<open>..\<close>
  removes the segment before it; at the top, \<^verbatim>\<open>..\<close> is kept for a relative path
  (\<open>allowAbove\<close>) and dropped for an absolute one. The accumulator holds the result reversed.
\<close>

fun normalize_segs :: "bool \<Rightarrow> string list \<Rightarrow> string list \<Rightarrow> string list" where
  "normalize_segs allowAbove acc [] = rev acc"
| "normalize_segs allowAbove acc (s # ss) =
     (if s = [] \<or> s = ''.'' then normalize_segs allowAbove acc ss
      else if s = ''..'' then
        (case acc of
           [] \<Rightarrow> normalize_segs allowAbove (if allowAbove then [''..''] else []) ss
         | t # ts \<Rightarrow>
             if t = ''..''
             then normalize_segs allowAbove (if allowAbove then ''..'' # acc else acc) ss
             else normalize_segs allowAbove ts ss)
      else normalize_segs allowAbove (s # acc) ss)"

definition path_normalize :: "string \<Rightarrow> string" where
  "path_normalize p =
     (if p = [] then ''.''
      else
        (let isAbsolute = (hd p = CHR ''/'');
             trailingSeparator = (last p = CHR ''/'');
             s = join_with ''/'' (normalize_segs (\<not> isAbsolute) [] (split_on CHR ''/'' p))
         in if s = [] then (if isAbsolute then ''/'' else if trailingSeparator then ''./'' else ''.'')
            else (if isAbsolute then ''/'' else []) @ s @ (if trailingSeparator then ''/'' else [])))"

text \<open>\<^verbatim>\<open>path.join(a, b)\<close>.\<close>

definition path_join :: "string \<Rightarrow> string \<Rightarrow> string" where
  "path_join a b =
     (let joined = (if a = [] then b else if b = [] then a else a @ ''/'' @ b)
      in if joined = [] then ''.'' else path_normalize joined)"

text \<open>
  \<^verbatim>\<open>path.dirname(p)\<close>: scanning from the end down to index 1, skip the trailing
  separators, then the last segment; what is left of the separator found is the result.
\<close>

definition path_dirname :: "string \<Rightarrow> string" where
  "path_dirname p =
     (if p = [] then ''.''
      else
        (let hasRoot = (hd p = CHR ''/'');
             r = dropWhile (\<lambda>c. c \<noteq> CHR ''/'') (dropWhile (\<lambda>c. c = CHR ''/'') (rev (tl p)))
         in if r = [] then (if hasRoot then ''/'' else ''.'')
            else if hasRoot \<and> length r = 1 then ''//''
            else hd p # rev (tl r)))"

text \<open>The segments of an absolute path, as the operating system resolves it.\<close>

definition path_segments :: "string \<Rightarrow> string list" where
  "path_segments p = normalize_segs False [] (split_on CHR ''/'' p)"

definition has_trailing_sep :: "string \<Rightarrow> bool" where
  "has_trailing_sep p = (1 < length p \<and> last p = CHR ''/'')"

text \<open>\<^verbatim>\<open>path.relative(from, to)\<close> for absolute paths.\<close>

definition path_relative :: "string \<Rightarrow> string \<Rightarrow> string" where
  "path_relative from to =
     (let a = path_segments from; b = path_segments to;
          n = length (longest_common_prefix a b)
      in join_with ''/'' (replicate (length a - n) ''..'' @ drop n b))"

text \<open>A path is inside the workspace when the root's segments are a prefix of its own.\<close>

definition inside_root :: "string \<Rightarrow> string \<Rightarrow> bool" where
  "inside_root root p = prefix (path_segments root) (path_segments p)"




section \<open>The workspace store\<close>

text \<open>
  The host's file system: a file with its content or a directory at each absolute path,
  given by its segments. The top directory \<open>[]\<close> always exists. There are no
  permissions, links or mount points.
\<close>

datatype node = File string | Dir

type_synonym filesystem = "string list \<rightharpoonup> node"

datatype errno = ENOENT | EISDIR | ENOTDIR | EEXIST

text \<open>A file-system error: its code, the system call, and the path when the message names one.\<close>

datatype fs_error = FsError errno string "string option"

fun errno_text :: "errno \<Rightarrow> string" where
  "errno_text ENOENT = ''ENOENT: no such file or directory''"
| "errno_text EISDIR = ''EISDIR: illegal operation on a directory''"
| "errno_text ENOTDIR = ''ENOTDIR: not a directory''"
| "errno_text EEXIST = ''EEXIST: file already exists''"

text \<open>\<^verbatim>\<open>error.message\<close> of a file-system error.\<close>

fun error_message :: "fs_error \<Rightarrow> string" where
  "error_message (FsError c syscall None) = errno_text c @ '', '' @ syscall"
| "error_message (FsError c syscall (Some p)) =
     errno_text c @ '', '' @ syscall @ '' '' @ [CHR 0x27] @ p @ [CHR 0x27]"

definition lookup :: "filesystem \<Rightarrow> string list \<Rightarrow> node option" where
  "lookup fs q = (if q = [] then Some Dir else fs q)"

fun is_file :: "node option \<Rightarrow> bool" where
  "is_file (Some (File c)) = True"
| "is_file n = False"

text \<open>A path is blocked when one of the directories leading to it is a file.\<close>

definition blocked :: "filesystem \<Rightarrow> string list \<Rightarrow> bool" where
  "blocked fs q = list_ex (\<lambda>r. is_file (lookup fs r)) (butlast (prefixes q))"

text \<open>\<^verbatim>\<open>fs.readFile(p, 'utf8')\<close> and \<^verbatim>\<open>fs.readFileSync(p, 'utf8')\<close>.\<close>

definition fs_readFile :: "filesystem \<Rightarrow> string \<Rightarrow> fs_error + string" where
  "fs_readFile fs p =
     (let q = path_segments p in
      case lookup fs q of
        Some (File c) \<Rightarrow>
          if has_trailing_sep p then Inl (FsError ENOTDIR ''open'' (Some p)) else Inr c
      | Some Dir \<Rightarrow> Inl (FsError EISDIR ''read'' None)
      | None \<Rightarrow> Inl (FsError (if blocked fs q then ENOTDIR else ENOENT) ''open'' (Some p)))"

text \<open>
  \<^verbatim>\<open>fs.ensureDir(p)\<close>: every missing directory on the way to \<open>p\<close>, and \<open>p\<close> itself, is
  created; a file in the way is an error.
\<close>

definition fs_ensureDir :: "filesystem \<Rightarrow> string \<Rightarrow> fs_error + filesystem" where
  "fs_ensureDir fs p =
     (let q = path_segments p in
      if list_ex (\<lambda>r. is_file (lookup fs r)) (prefixes q)
      then Inl (FsError (if is_file (lookup fs q) then EEXIST else ENOTDIR) ''mkdir'' (Some p))
      else Inr (\<lambda>r. if fs r = None \<and> r \<noteq> [] \<and> prefix r q then Some Dir else fs r))"

text \<open>
  \<^verbatim>\<open>fs.writeFile(p, content, 'utf8')\<close>: the file is created or replaced as a whole; the
  directory that holds it must exist; a path with a trailing separator cannot be opened
  for writing.
\<close>

definition fs_writeFile :: "filesystem \<Rightarrow> string \<Rightarrow> string \<Rightarrow> fs_error + filesystem" where
  "fs_writeFile fs p content =
     (let q = path_segments p in
      case lookup fs q of
        Some Dir \<Rightarrow> Inl (FsError EISDIR ''open'' (Some p))
      | Some (File c) \<Rightarrow>
          if has_trailing_sep p then Inl (FsError EISDIR ''open'' (Some p))
          else Inr (fs(q \<mapsto> File content))
      | None \<Rightarrow>
          (case lookup fs (butlast q) of
             Some Dir \<Rightarrow>
               if has_trailing_sep p then Inl (FsError EISDIR ''open'' (Some p))
               else Inr (fs(q \<mapsto> File content))
           | Some (File c) \<Rightarrow> Inl (FsError ENOTDIR ''open'' (Some p))
           | None \<Rightarrow>
               Inl (FsError (if blocked fs q then ENOTDIR else ENOENT) ''open'' (Some p))))"


subsection \<open>The file handlers\<close>

text \<open>
  Each handler takes the workspace directory \<^verbatim>\<open>WORKSPACE_DIR\<close> (an absolute path), the
  file system and the fields of its payload, and gives the file system afterwards and
  the events sent to the requesting connection. \<^verbatim>\<open>createFile\<close> has a default for a
  missing \<^verbatim>\<open>content\<close> (\<open>None\<close>).
\<close>

definition readFile :: "string \<Rightarrow> filesystem \<Rightarrow> string \<Rightarrow> message list" where
  "readFile root fs filePath =
     (let fullPath = path_join root filePath in
      case fs_readFile fs fullPath of
        Inr content \<Rightarrow> [File_content filePath content]
      | Inl error \<Rightarrow> [Error_message (''Failed to read file: '' @ error_message error)])"

definition writeFile :: "string \<Rightarrow> filesystem \<Rightarrow> string \<Rightarrow> string \<Rightarrow> filesystem \<times> message list" where
  "writeFile root fs filePath content =
     (let fullPath = path_join root filePath in
      case fs_ensureDir fs (path_dirname fullPath) of
        Inl error \<Rightarrow> (fs, [Error_message (''Failed to write file: '' @ error_message error)])
      | Inr fs1 \<Rightarrow>
          (case fs_writeFile fs1 fullPath content of
             Inl error \<Rightarrow> (fs1, [Error_message (''Failed to write file: '' @ error_message error)])
           | Inr fs2 \<Rightarrow> (fs2, [File_written filePath])))"



section \<open>Connections and the watcher\<close>

datatype ready_state = CONNECTING | OPEN | CLOSING | CLOSED

text \<open>The \<^verbatim>\<open>connections\<close> map: connection id and socket state, in insertion order.\<close>

type_synonym connections = "(string \<times> ready_state) list"

text \<open>\<^verbatim>\<open>broadcastToAll(message)\<close>: the deliveries made, as connection id and event.\<close>

definition broadcastToAll :: "connections \<Rightarrow> message \<Rightarrow> (string \<times> message) list" where
  "broadcastToAll conns msg = map (\<lambda>c. (fst c, msg)) (filter (\<lambda>c. snd c = OPEN) conns)"

text \<open>
  The watcher's \<^verbatim>\<open>ignored\<close> pattern \<^verbatim>\<open>/(^|[\/\\])\../\<close>: a dot at the start of the path
  or after a separator, followed by one more character that is not a line end.
\<close>

fun ignored_from :: "bool \<Rightarrow> string \<Rightarrow> bool" where
  "ignored_from boundary [] = False"
| "ignored_from boundary (c # cs) =
     ((boundary \<and> c = CHR ''.'' \<and> cs \<noteq> [] \<and> hd cs \<noteq> CHR 0x0A \<and> hd cs \<noteq> CHR 0x0D)
      \<or> ignored_from (c = CHR ''/'' \<or> c = CHR 0x5C) cs)"

definition ignored :: "string \<Rightarrow> bool" where
  "ignored p = ignored_from True p"

text \<open>The events of the chokidar watcher.\<close>

datatype watch_event = Add string | Change string | Unlink string | AddDir string | UnlinkDir string

text \<open>
  The kind of event by which chokidar reports a write of the file at \<open>p\<close>, \<open>fs\<close> being
  the file system before the write: \<^verbatim>\<open>change\<close> for a file that was there, \<^verbatim>\<open>add\<close> for
  a new one; a path outside the watched directory or an ignored one is never reported.
  Chokidar reports some time after the write began and may merge the events of writes
  that follow each other quickly, so a write need not have an event of its own.
\<close>

definition chokidar_event :: "string \<Rightarrow> filesystem \<Rightarrow> string \<Rightarrow> watch_event option" where
  "chokidar_event root fs p =
     (if inside_root root p \<and> \<not> ignored p
      then Some (if is_file (lookup fs (path_segments p)) then Change p else Add p)
      else None)"

text \<open>
  The handlers registered on the watcher: there is one, for \<^verbatim>\<open>change\<close>. \<open>fs\<close> is the
  file system at the moment the handler runs and reads the file, \<open>conns\<close> the
  connections registered then. \<open>Inl\<close> is an exception of \<^verbatim>\<open>fs.readFileSync\<close>, which
  nothing catches.
\<close>

definition watcher_on :: "string \<Rightarrow> filesystem \<Rightarrow> connections \<Rightarrow> watch_event \<Rightarrow> fs_error + (string \<times> message) list" where
  "watcher_on root fs conns ev =
     (case ev of
        Change filePath \<Rightarrow>
          (case fs_readFile fs filePath of
             Inl error \<Rightarrow> Inl error
           | Inr content \<Rightarrow>
               Inr (broadcastToAll conns (File_changed (path_relative root filePath) content)))
      | _ \<Rightarrow> Inr [])"

section \<open>Concrete inputs\<close>

text \<open>A host with a password file, and the workspace at \<^verbatim>\<open>/srv/workspace\<close>.\<close>

definition host_fs :: filesystem where
  "host_fs =
     [[''etc''] \<mapsto> Dir,
      [''etc'', ''passwd''] \<mapsto> File ''root:x:0:0:root:/root:/bin/sh'',
      [''srv''] \<mapsto> Dir,
      [''srv'', ''workspace''] \<mapsto> Dir,
      [''srv'', ''workspace'', ''old.txt''] \<mapsto> File ''before'',
      [''srv'', ''workspace'', ''docs''] \<mapsto> Dir,
      [''srv'', ''workspace'', ''docs'', ''note.md''] \<mapsto> File ''n'']"

text \<open>Three registered connections, the third with a closed socket.\<close>

definition clients :: connections where
  "clients = [(''c1'', OPEN), (''c2'', OPEN), (''c3'', CLOSED)]"

text \<open>
  Scripts, as \<^verbatim>\<open>vm.run\<close> sees them: one that logs the number 2 and completes with
  \<^verbatim>\<open>undefined\<close> (what \<^verbatim>\<open>console.log(1+1)\<close> does), one that logs once and never ends, one
  that throws an \<^verbatim>\<open>Error\<close>, one that completes with an object, one that completes with
  \<^verbatim>\<open>undefined\<close> at once, one that completes with an object holding a BigInt. The last
  is what \<^verbatim>\<open>vm.run\<close> sees of \<^verbatim>\<open>setTimeout(() => { while (true) {} }, 0); 1\<close>: the call
  hands the callback to the host's timer and the script completes with 1 at once; the
  loop runs afterwards on the host, outside \<^verbatim>\<open>vm.run\<close> and its timeout.
\<close>

definition logs_two :: "string \<Rightarrow> script" where
  "logs_two src t = ([[JNum 2]], Some (Returns JUndefined))"

definition loops_forever :: "string \<Rightarrow> script" where
  "loops_forever src t = ([[JStr ''start'']], None)"

definition throws_boom :: "string \<Rightarrow> script" where
  "throws_boom src t = ([], Some (Throws (JError ''boom'')))"

definition returns_object :: "string \<Rightarrow> script" where
  "returns_object src t = ([], Some (Returns (JObj [(''a'', JNum 1)])))"

definition returns_undefined :: "string \<Rightarrow> script" where
  "returns_undefined src t = ([], Some (Returns JUndefined))"

definition returns_bigint_object :: "string \<Rightarrow> script" where
  "returns_bigint_object src t = ([], Some (Returns (JObj [(''n'', JBigInt 1)])))"

definition timer_loop :: "string \<Rightarrow> script" where
  "timer_loop src t = ([], Some (Returns (JNum 1)))"


section \<open>Paths: normal forms\<close>



















section \<open>The sandbox: properties\<close>

lemma vm_run_cases:
  "vm_run t s =
     (fst (s t), case snd (s t) of Some out \<Rightarrow> out | None \<Rightarrow> Throws (timeout_error t))"
  by (simp add: vm_run_def split: prod.splits option.splits)

lemma timeout_error_5000:
  "timeout_error 5000 = JError ''Script execution timed out after 5000ms''"
  by (simp add: timeout_error_def digit_char_def)

lemma executeCode_supported:
  assumes "language pl = None \<or> language pl = Some ''javascript'' \<or> language pl = Some ''js''"
  shows "executeCode interp pl =
           map console_log (fst (vm_run 5000 (interp (code pl)))) @
           [result_event (snd (vm_run 5000 (interp (code pl))))
              (case language pl of None \<Rightarrow> ''javascript'' | Some l \<Rightarrow> l)]"
  using assms by (auto simp add: executeCode_def Let_def split: prod.splits)

lemma execution_error_not_console: "execution_error e \<noteq> Console_output x"
  by (simp add: execution_error_def split: sum.splits)

lemma execution_error_not_result: "execution_error e \<noteq> Execution_result r m l"
  by (simp add: execution_error_def split: sum.splits)

lemma result_event_not_console: "result_event out l \<noteq> Console_output x"
  by (simp add: result_event_def execution_error_not_console
      split: vm_outcome.splits sum.splits)

lemma result_event_language:
  "result_event out l = Execution_result r e l' \<Longrightarrow> l' = l"
  by (auto simp add: result_event_def execution_error_not_result
      split: vm_outcome.splits sum.splits if_splits)

text \<open>
  A script that is still running inside \<^verbatim>\<open>vm.run\<close> after 5000 ms is aborted: the
  console output produced so far is followed by one \<^verbatim>\<open>execution_result\<close> whose error
  is the timeout error's message and whose result is unassigned.
\<close>

lemma executeCode_timeout:
  assumes "snd (interp (code pl) 5000) = None"
    and "language pl = Some ''javascript''"
  shows "executeCode interp pl =
           map console_log (fst (interp (code pl) 5000)) @
           [Execution_result None (JStr ''Script execution timed out after 5000ms'')
              ''javascript'']"
  using assms
  by (simp add: executeCode_supported vm_run_cases timeout_error_5000 result_event_def
      json_quote_def)

text \<open>
  C3. The timeout bounds \<^verbatim>\<open>vm.run\<close> only. The source
  \<^verbatim>\<open>setTimeout(() => { while (true) {} }, 0); 1\<close> runs for ever, but its loop is in a
  callback of the host's timer, which the sandbox is given: \<^verbatim>\<open>vm.run\<close> returns 1 at
  once, and the request is answered with result \<^verbatim>\<open>1\<close> and error \<^verbatim>\<open>null\<close>, not with
  a timeout error; nothing aborts the loop that follows.
\<close>

theorem timer_loop_not_aborted:
  "executeCode timer_loop
     \<lparr>code = ''setTimeout(() => { while (true) {} }, 0); 1'', language = Some ''javascript''\<rparr> =
   [Execution_result (Some ''1'') JNull ''javascript'']"
  by (simp add: executeCode_supported vm_run_cases timer_loop_def result_event_def
      convert_result_def string_of_int_def digit_char_def)

text \<open>
  C5, as the claim states it, fails: for the language \<^verbatim>\<open>python\<close> the error text starts
  with a capital letter, \<^verbatim>\<open>Unsupported language: python\<close>.
\<close>

theorem unsupported_language_counterexample:
  "executeCode logs_two \<lparr>code = ''print(1)'', language = Some ''python''\<rparr> =
     [Execution_result None (JStr ''Unsupported language: python'') ''python''] \<and>
   executeCode logs_two \<lparr>code = ''print(1)'', language = Some ''python''\<rparr> \<noteq>
     [Execution_result None (JStr ''unsupported language: python'') ''python'']"
  by (simp add: executeCode_def Let_def)

text \<open>
  C5, amended. For a declared language other than \<^verbatim>\<open>javascript\<close> and \<^verbatim>\<open>js\<close> nothing is
  executed (no console output, whatever the script would do): the only event is an
  \<^verbatim>\<open>execution_result\<close> with the error \<^verbatim>\<open>Unsupported language: <language>\<close>, the result
  unassigned and the language echoed.
\<close>

theorem executeCode_unsupported:
  assumes "language pl = Some l" and "l \<noteq> ''javascript''" and "l \<noteq> ''js''"
  shows "executeCode interp pl =
           [Execution_result None (JStr (''Unsupported language: '' @ l)) l]"
  using assms by (simp add: executeCode_def Let_def)

theorem executeCode_unsupported_witness:
  "executeCode loops_forever \<lparr>code = ''print(1)'', language = Some ''python''\<rparr> =
     [Execution_result None (JStr ''Unsupported language: python'') ''python'']"
  using executeCode_unsupported
    [of "\<lparr>code = ''print(1)'', language = Some ''python''\<rparr>" "''python''" loops_forever]
  by simp

text \<open>
  C6. When the interpreter runs \<^verbatim>\<open>console.log(1+1)\<close> as JavaScript does (one call of
  \<^verbatim>\<open>console.log\<close> with the number 2, then completion with \<^verbatim>\<open>undefined\<close>), the requester
  is sent \<^verbatim>\<open>console_output\<close> with output \<^verbatim>\<open>2\<close> and then \<^verbatim>\<open>execution_result\<close> with no
  result and error \<^verbatim>\<open>null\<close>. In general every \<^verbatim>\<open>console.log\<close> call of a JavaScript
  request is one \<^verbatim>\<open>console_output\<close> event of its own, in call order, and all of them
  come before the one final event, which is not a console output.
\<close>

theorem round_trip_console_log:
  "(interp ''console.log(1+1)'' 5000 = ([[JNum 2]], Some (Returns JUndefined)) \<longrightarrow>
      executeCode interp \<lparr>code = ''console.log(1+1)'', language = Some ''javascript''\<rparr> =
        [Console_output ''2'', Execution_result None JNull ''javascript'']) \<and>
   (\<exists>final. executeCode interp \<lparr>code = src, language = Some ''javascript''\<rparr> =
        map console_log (fst (vm_run 5000 (interp src))) @ [final] \<and>
        (\<forall>out. final \<noteq> Console_output out))"
proof (intro conjI impI)
  assume "interp ''console.log(1+1)'' 5000 = ([[JNum 2]], Some (Returns JUndefined))"
  then show "executeCode interp \<lparr>code = ''console.log(1+1)'', language = Some ''javascript''\<rparr> =
        [Console_output ''2'', Execution_result None JNull ''javascript'']"
    by (simp add: executeCode_supported vm_run_cases result_event_def
        console_log_def format_arg_def digit_char_def string_of_int_def)
next
  show "\<exists>final. executeCode interp \<lparr>code = src, language = Some ''javascript''\<rparr> =
        map console_log (fst (vm_run 5000 (interp src))) @ [final] \<and>
        (\<forall>out. final \<noteq> Console_output out)"
    by (simp add: executeCode_supported result_event_not_console)
qed

theorem round_trip_console_log_witness:
  "executeCode logs_two \<lparr>code = ''console.log(1+1)'', language = Some ''javascript''\<rparr> =
     [Console_output ''2'', Execution_result None JNull ''javascript'']"
  using round_trip_console_log [of logs_two]
  by (simp add: logs_two_def)

text \<open>
  C7, as the claim states it, fails: a program that completes with \<^verbatim>\<open>undefined\<close> gets an
  \<^verbatim>\<open>execution_result\<close> in which the result is unassigned and the error is \<^verbatim>\<open>null\<close>, so
  neither of the two is non-null.
\<close>

theorem undefined_result_counterexample:
  "executeCode returns_undefined \<lparr>code = ''undefined'', language = Some ''javascript''\<rparr> =
     [Execution_result None JNull ''javascript'']"
  by (simp add: executeCode_supported vm_run_cases result_event_def returns_undefined_def)

text \<open>
  C7, amended. For a request in a supported language: when the program completes with a
  value other than \<^verbatim>\<open>undefined\<close> and the conversion of that value to text succeeds
  (\<^verbatim>\<open>JSON.stringify\<close> for a value of type object, \<^verbatim>\<open>String\<close> for every other), the
  result is that text and the error is \<^verbatim>\<open>null\<close>; when it completes with \<^verbatim>\<open>undefined\<close>,
  result and error are both null; when it throws an \<^verbatim>\<open>Error\<close>, the error is the
  error's message and the result is unassigned. In each of these cases at most one of
  result and error is non-null. A returned value whose conversion throws is not covered.
\<close>

theorem executeCode_result_or_error:
  assumes "language pl = None \<or> language pl = Some ''javascript'' \<or> language pl = Some ''js''"
  shows "(interp (code pl) 5000 = (logs, Some (Returns v)) \<and> v \<noteq> JUndefined
            \<and> convert_result v = Inr (Some text) \<longrightarrow>
            executeCode interp pl =
              map console_log logs @
              [Execution_result (Some text) JNull
                 (case language pl of None \<Rightarrow> ''javascript'' | Some l \<Rightarrow> l)])
       \<and> (js_typeof v = ''object'' \<longrightarrow> convert_result v = JSON_stringify v)
       \<and> (js_typeof v \<noteq> ''object'' \<longrightarrow> convert_result v = Inr (Some (js_String v)))
       \<and> (interp (code pl) 5000 = (logs, Some (Returns JUndefined)) \<longrightarrow>
            executeCode interp pl =
              map console_log logs @
              [Execution_result None JNull
                 (case language pl of None \<Rightarrow> ''javascript'' | Some l \<Rightarrow> l)])
       \<and> (interp (code pl) 5000 = (logs, Some (Throws (JError m))) \<longrightarrow>
            executeCode interp pl =
              map console_log logs @
              [Execution_result None (JStr m)
                 (case language pl of None \<Rightarrow> ''javascript'' | Some l \<Rightarrow> l)])"
  using assms
  by (auto simp add: executeCode_supported vm_run_cases result_event_def convert_result_def
      json_quote_def)

theorem executeCode_result_or_error_witness:
  "executeCode returns_object \<lparr>code = ''({a: 1})'', language = Some ''javascript''\<rparr> =
     [Execution_result
        (Some (''{'' @ [CHR 0x0A] @ ''  '' @ [CHR 0x22] @ ''a'' @ [CHR 0x22] @ '': 1'' @
               [CHR 0x0A] @ ''}''))
        JNull ''javascript''] \<and>
   executeCode throws_boom \<lparr>code = ''null.x'', language = Some ''javascript''\<rparr> =
     [Execution_result None (JStr ''boom'') ''javascript''] \<and>
   executeCode returns_undefined \<lparr>code = ''undefined'', language = Some ''js''\<rparr> =
     [Execution_result None JNull ''js'']"
  using executeCode_result_or_error
      [of "\<lparr>code = ''({a: 1})'', language = Some ''javascript''\<rparr>" returns_object
          "[]" "JObj [(''a'', JNum 1)]"
          "''{'' @ [CHR 0x0A] @ ''  '' @ [CHR 0x22] @ ''a'' @ [CHR 0x22] @ '': 1'' @ [CHR 0x0A] @ ''}''"]
    executeCode_result_or_error
      [of "\<lparr>code = ''null.x'', language = Some ''javascript''\<rparr>" throws_boom "[]" _ _ "''boom''"]
    executeCode_result_or_error
      [of "\<lparr>code = ''undefined'', language = Some ''js''\<rparr>" returns_undefined "[]"]
  by (simp add: returns_object_def throws_boom_def returns_undefined_def convert_result_def
        JSON_stringify_def json_quote_def json_escape_def digit_char_def string_of_int_def)

text \<open>
  A returned object that holds a BigInt: its conversion throws, and so does the
  conversion of the event that still holds it; the requester gets \<^verbatim>\<open>execution_error\<close>.
\<close>

lemma conversion_throws_example:
  "executeCode returns_bigint_object \<lparr>code = ''({n: 1n})'', language = Some ''javascript''\<rparr> =
     [Execution_error (JStr ''Do not know how to serialize a BigInt'')]"
  by (simp add: executeCode_supported vm_run_cases result_event_def returns_bigint_object_def
      convert_result_def JSON_stringify_def execution_error_def json_quote_def)

text \<open>
  C10. A request without a language is handled exactly as one that declares
  \<^verbatim>\<open>javascript\<close>; for \<^verbatim>\<open>javascript\<close> and for \<^verbatim>\<open>js\<close> the same script is run under the same
  timeout and the same events are produced, the final event being built with the
  language as declared (or defaulted); and an \<^verbatim>\<open>execution_result\<close> carries that language
  in its language field.
\<close>

theorem executeCode_language_default_alias:
  "executeCode interp \<lparr>code = src, language = None\<rparr> =
     executeCode interp \<lparr>code = src, language = Some ''javascript''\<rparr>
   \<and> executeCode interp \<lparr>code = src, language = Some ''javascript''\<rparr> =
       map console_log (fst (vm_run 5000 (interp src))) @
       [result_event (snd (vm_run 5000 (interp src))) ''javascript'']
   \<and> executeCode interp \<lparr>code = src, language = Some ''js''\<rparr> =
       map console_log (fst (vm_run 5000 (interp src))) @
       [result_event (snd (vm_run 5000 (interp src))) ''js'']
   \<and> (\<forall>out l r e l'. result_event out l = Execution_result r e l' \<longrightarrow> l' = l)"
  by (simp add: executeCode_supported result_event_language)

theorem executeCode_language_default_alias_witness:
  "executeCode logs_two \<lparr>code = ''console.log(1+1)'', language = None\<rparr> =
     [Console_output ''2'', Execution_result None JNull ''javascript'']
   \<and> executeCode logs_two \<lparr>code = ''console.log(1+1)'', language = Some ''js''\<rparr> =
     [Console_output ''2'', Execution_result None JNull ''js'']"
  using executeCode_language_default_alias [of logs_two "''console.log(1+1)''"]
  by (simp add: vm_run_cases logs_two_def result_event_def console_log_def format_arg_def
        digit_char_def string_of_int_def)

section \<open>The workspace store: properties\<close>

subsection \<open>Paths of the concrete inputs\<close>

lemma segs_root: "path_segments ''/srv/workspace'' = [''srv'', ''workspace'']"
  by (simp add: path_segments_def)

lemma path_join_passwd: "path_join ''/srv/workspace'' ''../../etc/passwd'' = ''/etc/passwd''"
  by (simp add: path_join_def path_normalize_def)

lemma segs_passwd: "path_segments ''/etc/passwd'' = [''etc'', ''passwd'']"
  by (simp add: path_segments_def)

lemma path_join_new: "path_join ''/srv/workspace'' ''a.txt'' = ''/srv/workspace/a.txt''"
  by (simp add: path_join_def path_normalize_def)

lemma segs_new: "path_segments ''/srv/workspace/a.txt'' = [''srv'', ''workspace'', ''a.txt'']"
  by (simp add: path_segments_def)

lemma dirname_new: "path_dirname ''/srv/workspace/a.txt'' = ''/srv/workspace''"
  by (simp add: path_dirname_def)

lemma path_join_old: "path_join ''/srv/workspace'' ''old.txt'' = ''/srv/workspace/old.txt''"
  by (simp add: path_join_def path_normalize_def)

lemma segs_old: "path_segments ''/srv/workspace/old.txt'' = [''srv'', ''workspace'', ''old.txt'']"
  by (simp add: path_segments_def)

lemma relative_old: "path_relative ''/srv/workspace'' ''/srv/workspace/old.txt'' = ''old.txt''"
  by (simp add: path_relative_def segs_root segs_old)











lemma old_lookup: "lookup host_fs [''srv'', ''workspace'', ''old.txt''] = Some (File ''before'')"
  by (simp add: lookup_def host_fs_def)

lemma writeFile_new:
  "snd (writeFile ''/srv/workspace'' host_fs ''a.txt'' ''X'') = [File_written ''a.txt'']"
  by (simp add: writeFile_def path_join_new dirname_new fs_ensureDir_def segs_root segs_new
      fs_writeFile_def lookup_def host_fs_def has_trailing_sep_def Let_def)

subsection \<open>Path confinement\<close>

text \<open>
  C1. Path confinement does not hold of the handlers: with the workspace at
  \<^verbatim>\<open>/srv/workspace\<close>, \<^verbatim>\<open>read_file\<close> with the path \<^verbatim>\<open>../../etc/passwd\<close> resolves to
  \<^verbatim>\<open>/etc/passwd\<close>, which is outside the workspace, and the content of that host file is
  sent to the requester as \<^verbatim>\<open>file_content\<close>. The handlers join the path to the workspace
  directory and pass the result to the file system; none of them compares the two.
\<close>

theorem readFile_escapes_root:
  "readFile ''/srv/workspace'' host_fs ''../../etc/passwd'' =
     [File_content ''../../etc/passwd'' ''root:x:0:0:root:/root:/bin/sh''] \<and>
   \<not> inside_root ''/srv/workspace'' (path_join ''/srv/workspace'' ''../../etc/passwd'')"
  by (simp add: readFile_def path_join_passwd fs_readFile_def segs_passwd lookup_def host_fs_def
        has_trailing_sep_def inside_root_def segs_root)

subsection \<open>Writing and reading back\<close>

lemma fs_writeFile_Inr:
  "fs_writeFile fs p c = Inr fs' \<Longrightarrow>
     fs' = fs(path_segments p \<mapsto> File c) \<and> \<not> has_trailing_sep p \<and> path_segments p \<noteq> []"
  by (auto simp add: fs_writeFile_def lookup_def Let_def
      split: option.splits node.splits if_splits)

lemma fs_readFile_after_write:
  "fs_writeFile fs p c = Inr fs' \<Longrightarrow> fs_readFile fs' p = Inr c"
  by (drule fs_writeFile_Inr) (simp add: fs_readFile_def lookup_def)

lemma writeFile_success:
  "writeFile root fs p c = (fs', [File_written p]) \<Longrightarrow>
     fs_readFile fs' (path_join root p) = Inr c"
  by (auto simp add: writeFile_def Let_def fs_readFile_after_write split: sum.splits)

lemma broadcast_exactly_once:
  "distinct (map fst cs) \<Longrightarrow>
     filter (\<lambda>d. fst d = cid) (broadcastToAll cs msg) =
       (if (cid, OPEN) \<in> set cs then [(cid, msg)] else [])"
proof (induction cs)
  case Nil
  then show ?case by (simp add: broadcastToAll_def)
next
  case (Cons c cs)
  then have "(cid, OPEN) \<in> set cs \<Longrightarrow> fst c \<noteq> cid"
    by (metis distinct.simps(2) fst_conv image_eqI list.simps(9) set_map)
  with Cons show ?case
    by (cases c) (auto simp add: broadcastToAll_def)
qed

subsection \<open>Broadcast of changes\<close>

text \<open>
  C2, as the claim states it, fails: the first write of \<^verbatim>\<open>a.txt\<close>, which creates the
  file, succeeds; the watcher reports a new file as \<^verbatim>\<open>add\<close>; and for \<^verbatim>\<open>add\<close> there is
  no handler, so no connection is sent anything, though two are registered and open.
\<close>

theorem first_write_counterexample:
  "snd (writeFile ''/srv/workspace'' host_fs ''a.txt'' ''X'') = [File_written ''a.txt''] \<and>
   chokidar_event ''/srv/workspace'' host_fs (path_join ''/srv/workspace'' ''a.txt'') =
     Some (Add ''/srv/workspace/a.txt'') \<and>
   watcher_on ''/srv/workspace'' (fst (writeFile ''/srv/workspace'' host_fs ''a.txt'' ''X''))
     clients (Add ''/srv/workspace/a.txt'') = Inr []"
proof (intro conjI)
  show "snd (writeFile ''/srv/workspace'' host_fs ''a.txt'' ''X'') = [File_written ''a.txt'']"
    by (rule writeFile_new)
  show "chokidar_event ''/srv/workspace'' host_fs (path_join ''/srv/workspace'' ''a.txt'') =
     Some (Add ''/srv/workspace/a.txt'')"
    by (simp add: path_join_new chokidar_event_def inside_root_def segs_root segs_new
      ignored_def lookup_def host_fs_def)
  show "watcher_on ''/srv/workspace'' (fst (writeFile ''/srv/workspace'' host_fs ''a.txt'' ''X''))
     clients (Add ''/srv/workspace/a.txt'') = Inr []"
    by (simp add: watcher_on_def)
qed

text \<open>
  C2, amended. Whenever the watcher reports a \<^verbatim>\<open>change\<close> of a file and the file can be
  read, every registered connection whose socket is open, the requester or not, is sent
  \<^verbatim>\<open>file_changed\<close> with the path relative to the workspace and the content the file has
  when the handler reads it; connection ids being unique, each of them is sent it
  exactly once, and a connection that is not open is sent nothing. After a completed
  write that content is the new full content. An event other than \<^verbatim>\<open>change\<close> (the
  \<^verbatim>\<open>add\<close> of a newly created file among them) is broadcast to no one.
\<close>

theorem change_event_broadcast:
  "(fs_readFile fs filePath = Inr content \<longrightarrow>
      watcher_on root fs conns (Change filePath) =
        Inr (map (\<lambda>c. (fst c, File_changed (path_relative root filePath) content))
               (filter (\<lambda>c. snd c = OPEN) conns))
      \<and> (distinct (map fst conns) \<longrightarrow>
           (\<forall>cid. filter (\<lambda>d. fst d = cid)
                    (map (\<lambda>c. (fst c, File_changed (path_relative root filePath) content))
                       (filter (\<lambda>c. snd c = OPEN) conns)) =
                  (if (cid, OPEN) \<in> set conns
                   then [(cid, File_changed (path_relative root filePath) content)]
                   else []))))
   \<and> (writeFile root fs0 p new_content = (fs, [File_written p]) \<longrightarrow>
        fs_readFile fs (path_join root p) = Inr new_content)
   \<and> watcher_on root fs conns (Add filePath) = Inr []
   \<and> watcher_on root fs conns (Unlink filePath) = Inr []
   \<and> watcher_on root fs conns (AddDir filePath) = Inr []
   \<and> watcher_on root fs conns (UnlinkDir filePath) = Inr []"
proof (intro conjI impI allI)
  assume r: "fs_readFile fs filePath = Inr content"
  then show "watcher_on root fs conns (Change filePath) =
        Inr (map (\<lambda>c. (fst c, File_changed (path_relative root filePath) content))
               (filter (\<lambda>c. snd c = OPEN) conns))"
    by (simp add: watcher_on_def broadcastToAll_def)
next
  fix cid
  assume "distinct (map fst conns)"
  then show "filter (\<lambda>d. fst d = cid)
                    (map (\<lambda>c. (fst c, File_changed (path_relative root filePath) content))
                       (filter (\<lambda>c. snd c = OPEN) conns)) =
                  (if (cid, OPEN) \<in> set conns
                   then [(cid, File_changed (path_relative root filePath) content)]
                   else [])"
    using broadcast_exactly_once [of conns cid] by (simp add: broadcastToAll_def)
next
  assume "writeFile root fs0 p new_content = (fs, [File_written p])"
  then show "fs_readFile fs (path_join root p) = Inr new_content"
    by (rule writeFile_success)
qed (simp_all add: watcher_on_def)

theorem change_event_broadcast_witness:
  "watcher_on ''/srv/workspace''
     (fst (writeFile ''/srv/workspace'' host_fs ''old.txt'' ''X'')) clients
     (Change ''/srv/workspace/old.txt'') =
   Inr [(''c1'', File_changed ''old.txt'' ''X''), (''c2'', File_changed ''old.txt'' ''X'')]"
proof -
  let ?w = "writeFile ''/srv/workspace'' host_fs ''old.txt'' ''X''"
  have s: "snd ?w = [File_written ''old.txt'']"
    by (simp add: writeFile_def path_join_old path_dirname_def fs_ensureDir_def segs_root segs_old
      fs_writeFile_def lookup_def host_fs_def has_trailing_sep_def Let_def)
  then have w: "?w = (fst ?w, [File_written ''old.txt''])"
    by (metis prod.collapse)
  from change_event_broadcast [of "fst ?w" "''/srv/workspace/old.txt''" "''X''"
      "''/srv/workspace''" clients host_fs "''old.txt''" "''X''"] w
  show ?thesis
    by (simp add: path_join_old relative_old clients_def)
qed

subsection \<open>Deleting\<close>




subsection \<open>Creating and writing\<close>







end
